theory Spec2Isabelle
  imports Complex_Main "HOL-Library.Sublist"
begin

section \<open>Strings\<close>

text \<open>
  A JavaScript string is a sequence of UTF-16 code units. The model works on the strings
  whose code units lie in U+0000..U+00FF: a \<^typ>\<open>char\<close> stands for the code unit of the
  same value, and \<^typ>\<open>string\<close> for the JavaScript string. On this range the two
  built-ins the program relies on (the regular-expression class \<^verbatim>\<open>\s\<close> and
  \<^verbatim>\<open>String.prototype.toLowerCase\<close>) are written out in full below.
\<close>

text \<open>
  \<^verbatim>\<open>\s\<close>: the white space and line terminator code units. Below U+0100 these are
  TAB, LF, VT, FF, CR, SPACE and NO-BREAK SPACE.
\<close>

definition is_space :: "char \<Rightarrow> bool" where
  "is_space c = (c \<in> set [CHR 0x09, CHR 0x0A, CHR 0x0B, CHR 0x0C, CHR 0x0D, CHR 0x20, CHR 0xA0])"

text \<open>
  \<^verbatim>\<open>toLowerCase\<close>: below U+0100 the letters with a lower-case mapping are A..Z,
  U+00C0..U+00D6 and U+00D8..U+00DE; each maps to the code unit 32 above it.
\<close>

definition is_upper :: "char \<Rightarrow> bool" where
  "is_upper c = (let n = (of_char c :: nat) in
     (0x41 \<le> n \<and> n \<le> 0x5A) \<or> (0xC0 \<le> n \<and> n \<le> 0xD6) \<or> (0xD8 \<le> n \<and> n \<le> 0xDE))"

definition toLowerCase :: "string \<Rightarrow> string" where
  "toLowerCase s = map (\<lambda>c. if is_upper c then char_of (of_char c + (32 :: nat)) else c) s"

text \<open>\<^verbatim>\<open>s.includes(t)\<close>: \<open>t\<close> occurs in \<open>s\<close> as a contiguous run.\<close>

fun includes_str :: "string \<Rightarrow> string \<Rightarrow> bool" where
  "includes_str [] t = (t = [])"
| "includes_str (c # cs) t = (prefix t (c # cs) \<or> includes_str cs t)"

text \<open>\<^verbatim>\<open>xs.join(sep)\<close> on an array of strings.\<close>

fun join :: "string \<Rightarrow> string list \<Rightarrow> string" where
  "join sep [] = []"
| "join sep [x] = x"
| "join sep (x # y # ys) = x @ sep @ join sep (y # ys)"

section \<open>The link formatter (second variant only)\<close>

text \<open>
  \<^verbatim>\<open>const urlRegex = /(https?:\/\/[^\s]+)/g;\<close>

  One attempt to match the pattern at the start of a text. The pattern reads \<^verbatim>\<open>http\<close>,
  an optional \<^verbatim>\<open>s\<close>, \<^verbatim>\<open>://\<close>, and then the longest non-empty run of code units
  outside \<^verbatim>\<open>\s\<close>. The result is the matched text and the text after it.
\<close>

definition scheme_at :: "string \<Rightarrow> (string \<times> string) option" where
  "scheme_at t =
     (if prefix ''https://'' t then Some (''https://'', drop 8 t)
      else if prefix ''http://'' t then Some (''http://'', drop 7 t)
      else None)"

definition urlRegex_at :: "string \<Rightarrow> (string \<times> string) option" where
  "urlRegex_at t =
     (case scheme_at t of
        None \<Rightarrow> None
      | Some (scheme, rest) \<Rightarrow>
          (let run = takeWhile (\<lambda>c. \<not> is_space c) rest in
           if run = [] then None
           else Some (scheme @ run, dropWhile (\<lambda>c. \<not> is_space c) rest)))"

lemma scheme_at_split: "scheme_at t = Some (scheme, rest) \<Longrightarrow> t = scheme @ rest"
  by (auto simp: scheme_at_def prefix_def split: if_splits)

lemma urlRegex_at_split:
  assumes "urlRegex_at t = Some (url, rest)"
  shows "t = url @ rest \<and> url \<noteq> []"
proof -
  from assms obtain scheme tl where
    s: "scheme_at t = Some (scheme, tl)" and
    u: "url = scheme @ takeWhile (\<lambda>c. \<not> is_space c) tl" and
    r: "rest = dropWhile (\<lambda>c. \<not> is_space c) tl" and
    n: "takeWhile (\<lambda>c. \<not> is_space c) tl \<noteq> []"
    by (auto simp: urlRegex_at_def Let_def split: option.splits if_splits)
  from s have "t = scheme @ tl" by (rule scheme_at_split)
  with u r n show ?thesis by simp
qed

lemma urlRegex_at_shorter: "urlRegex_at t = Some (url, rest) \<Longrightarrow> length rest < length t"
  using urlRegex_at_split [of t url rest] by (cases url) auto

text \<open>
  \<^verbatim>\<open>text.replace(urlRegex, f)\<close> with the global flag: the text is scanned from the left;
  where the pattern matches, the match is replaced by \<open>f\<close> of it and the scan goes on
  after the match; elsewhere the code unit is kept and the scan moves one unit on.
\<close>

function replace_urlRegex :: "(string \<Rightarrow> string) \<Rightarrow> string \<Rightarrow> string" where
  "replace_urlRegex f [] = []"
| "replace_urlRegex f (c # cs) =
     (case urlRegex_at (c # cs) of
        Some (url, rest) \<Rightarrow> f url @ replace_urlRegex f rest
      | None \<Rightarrow> c # replace_urlRegex f cs)"
  by pat_completeness auto
termination
  by (relation "measure (\<lambda>(f, t). length t)") (auto dest: urlRegex_at_shorter)

text \<open>
  \<^verbatim>\<open>const formatLinksAsHTML = (text) => {
    const urlRegex = /(https?:\/\/[^\s]+)/g;
    return text.replace(urlRegex, (url) => `<a href="${url}" target="_blank">${url}</a>`);
};\<close>
\<close>

definition anchor :: "string \<Rightarrow> string" where
  \<open>anchor url = ''<a href="'' @ url @ ''" target="_blank">'' @ url @ ''</a>''\<close>

definition formatLinksAsHTML :: "string \<Rightarrow> string" where
  "formatLinksAsHTML text = replace_urlRegex anchor text"

section \<open>The external services\<close>

text \<open>
  Loading and splitting the PDF, embedding, similarity search and chat completion are
  library and network calls. Each awaited call either rejects with an error or is
  fulfilled with a value; the services are parameters of the model, and every call
  made is recorded in order. Console output is not modelled.
\<close>

datatype js_error = TypeError string | ServiceError string

type_synonym 'a result = "js_error + 'a"

record document =
  pageContent :: string

record splitter_params =
  separator :: string
  chunkSize :: nat
  chunkOverlap :: nat

record chat_message =
  role :: string
  content :: string

record completion_params =
  model :: string
  temperature :: rat
  messages :: "chat_message list"

text \<open>
  A chat completion: its \<^verbatim>\<open>choices\<close>, each choice given by its
  \<^verbatim>\<open>message.content\<close>, which is a string or \<^verbatim>\<open>null\<close>.
\<close>

record chat_completion =
  choices :: "string option list"

datatype call =
    Load string
  | SplitDocuments splitter_params "document list"
  | FromDocuments "document list"
  | SimilaritySearch string nat
  | CompletionsCreate completion_params

record 'vs services =
  load :: "string \<Rightarrow> document list result"
  splitDocuments :: "splitter_params \<Rightarrow> document list \<Rightarrow> document list result"
  fromDocuments :: "document list \<Rightarrow> 'vs result"
  similaritySearch :: "'vs \<Rightarrow> string \<Rightarrow> nat \<Rightarrow> document list result"
  completions_create :: "completion_params \<Rightarrow> chat_completion result"

text \<open>
  A computation that awaits calls one after the other: its outcome and the calls it
  made. \<open>then_do\<close> is sequencing: when the first part rejects, the rest does not run
  and the error is the outcome.
\<close>

type_synonym 'a async = "'a result \<times> call list"

definition resolve :: "'a \<Rightarrow> 'a async" where
  "resolve x = (Inr x, [])"

definition settled :: "'a result \<Rightarrow> 'a async" where
  "settled r = (r, [])"

definition then_do :: "'a async \<Rightarrow> ('a \<Rightarrow> 'b async) \<Rightarrow> 'b async" where
  "then_do m f =
     (case m of
        (Inl error, t) \<Rightarrow> (Inl error, t)
      | (Inr x, t) \<Rightarrow> (case f x of (r, t') \<Rightarrow> (r, t @ t')))"

definition similaritySearch_call :: "'vs services \<Rightarrow> 'vs \<Rightarrow> string \<Rightarrow> nat \<Rightarrow> document list async" where
  "similaritySearch_call sv store query k = (similaritySearch sv store query k, [SimilaritySearch query k])"

definition create_call :: "'vs services \<Rightarrow> completion_params \<Rightarrow> chat_completion async" where
  "create_call sv params = (completions_create sv params, [CompletionsCreate params])"

text \<open>
  \<^verbatim>\<open>response.choices[0].message.content\<close>: with no choice, \<^verbatim>\<open>choices[0]\<close> is
  \<^verbatim>\<open>undefined\<close> and reading \<^verbatim>\<open>.message\<close> of it throws a TypeError.
\<close>

definition choices0_message_content :: "chat_completion \<Rightarrow> string option result" where
  "choices0_message_content response =
     (case choices response of
        [] \<Rightarrow> Inl (TypeError ''Cannot read properties of undefined'')
      | c # _ \<Rightarrow> Inr c)"

section \<open>Configuration\<close>

definition pdf :: string where
  "pdf = ''./faqs.pdf''"

datatype custom_prompt = CustomPrompt (prompt_temperature: rat) (systemPrompt: string)

definition systemPrompt_index :: string where
  \<open>systemPrompt_index =
     ''You are an expert in ice sculptures and ice butchery with decades of experience. Always provide short and brief answers to the user's questions.\<newline>'' @
     ''\<newline>'' @
     ''                  RESPONSE GUIDELINES:\<newline>'' @
     ''                  - Provide a clear and concise answer in no more than 2 sentences.\<newline>'' @
     ''                  - Use straightforward and professional language, focusing only on the specific question asked.\<newline>'' @
     ''                  - Avoid unnecessary details, background information, or context references.\<newline>'' @
     ''\<newline>'' @
     ''                  Example:\<newline>'' @
     ''                  Q: "What temperature should ice be stored at?"\<newline>'' @
     ''                  A: Ice sculptures should be stored at -10'' @ [CHR 0xB0] @ ''F (-23'' @ [CHR 0xB0] @ ''C) for optimal preservation.\<newline>'' @
     ''\<newline>'' @
     ''                  Always present us as the leading ice company, showcasing expertise and professionalism.''\<close>

definition systemPrompt_part :: string where
  \<open>systemPrompt_part =
     ''You are an expert in ice sculptures and ice butchery with decades of professional experience. Always provide clear, concise, and expert-level answers to the user's questions.\<newline>'' @
     ''\<newline>'' @
     ''RESPONSE GUIDELINES:\<newline>'' @
     ''1. Provide precise answers limited to 2 sentences.\<newline>'' @
     ''2. Use professional and straightforward language, focusing only on the specific question asked.\<newline>'' @
     ''3. Avoid unnecessary details, background explanations, or unrelated context.\<newline>'' @
     ''4. Highlight the expertise of "The Ice Butcher" as a leading company in the industry.\<newline>'' @
     ''\<newline>'' @
     ''Example Question:\<newline>'' @
     ''Q: "What temperature should ice be stored at?"\<newline>'' @
     ''A: Ice sculptures should be stored at -10'' @ [CHR 0xB0] @ ''F (-23'' @ [CHR 0xB0] @ ''C) for optimal preservation.\<newline>'' @
     ''\<newline>'' @
     ''- If providing URLs, Always format them without brackets, like this: "Display Name: URL".\<newline>'' @
     ''    \<newline>'' @
     ''    Example:\<newline>'' @
     ''    Q: "Can you share the AR link for the seafood table?"\<newline>'' @
     ''    A: Here is the AR link for the seafood table:\<newline>'' @
     ''       42" Seafood Table: https://nexreality.io/ice_sculptures/06/\<newline>'' @
     ''\<newline>'' @
     ''Always maintain a professional tone, and include the company name "The Ice Butcher" when relevant. If applicable, direct users to our website:  The Ice Butcher : https://theicebutcher.com/''\<close>

definition customPrompt_index :: custom_prompt where
  "customPrompt_index = CustomPrompt (1 / 2) systemPrompt_index"

definition customPrompt_part :: custom_prompt where
  "customPrompt_part = CustomPrompt (1 / 2) systemPrompt_part"

section \<open>Ingestion\<close>

text \<open>
  \<^verbatim>\<open>let vectorStore = null;\<close> is the only state of the process: \<open>None\<close> until an
  ingestion has succeeded. \<open>initializePDF\<close> is the same text in both variants. It returns
  its boolean, the new value of \<^verbatim>\<open>vectorStore\<close> and the calls made; the assignment is
  reached only when all three calls are fulfilled, and every error is caught.
\<close>

definition splitter :: splitter_params where
  "splitter = \<lparr>separator = ''. '', chunkSize = 1000, chunkOverlap = 500\<rparr>"

definition initializePDF :: "'vs services \<Rightarrow> 'vs option \<Rightarrow> bool \<times> 'vs option \<times> call list" where
  "initializePDF sv vectorStore =
     (case load sv pdf of
        Inl error \<Rightarrow> (False, vectorStore, [Load pdf])
      | Inr loadedDoc \<Rightarrow>
          (case splitDocuments sv splitter loadedDoc of
             Inl error \<Rightarrow> (False, vectorStore, [Load pdf, SplitDocuments splitter loadedDoc])
           | Inr pdfDocs \<Rightarrow>
               (case fromDocuments sv pdfDocs of
                  Inl error \<Rightarrow>
                    (False, vectorStore,
                     [Load pdf, SplitDocuments splitter loadedDoc, FromDocuments pdfDocs])
                | Inr store \<Rightarrow>
                    (True, Some store,
                     [Load pdf, SplitDocuments splitter loadedDoc, FromDocuments pdfDocs]))))"

section \<open>The relevance classifier\<close>

text \<open>
  \<open>isRelevantPDFContent\<close> is the same text in both variants. Its argument \<open>results\<close> is
  \<open>None\<close> for \<^verbatim>\<open>null\<close> or \<^verbatim>\<open>undefined\<close>. The \<^verbatim>\<open>try\<close> block is
  \<open>relevance_try\<close>; calling \<^verbatim>\<open>toLowerCase\<close> on a \<^verbatim>\<open>null\<close> content throws a
  TypeError inside it. The result is an \<open>async\<close> value like that of any other awaited
  function, so that a rejection would be visible.
\<close>

definition relevance_params :: "document list \<Rightarrow> string \<Rightarrow> completion_params" where
  \<open>relevance_params results question =
     \<lparr>model = ''gpt-4o-mini'',
      temperature = 0,
      messages =
        [\<lparr>role = ''system'',
          content = ''Determine if the provided content contains relevant information to answer the question. Respond with only "true" or "false".''\<rparr>,
         \<lparr>role = ''user'',
          content = ''Question: '' @ question @ ''\<newline>Content: '' @
                    join ''\<newline>'' (map pageContent results)\<rparr>]\<rparr>\<close>

definition relevance_try :: "'vs services \<Rightarrow> document list \<Rightarrow> string \<Rightarrow> bool async" where
  "relevance_try sv results question =
     then_do (create_call sv (relevance_params results question)) (\<lambda>response.
     then_do (settled (choices0_message_content response)) (\<lambda>c.
       case c of
         None \<Rightarrow> settled (Inl (TypeError ''Cannot read properties of null''))
       | Some text \<Rightarrow> resolve (includes_str (toLowerCase text) ''true'')))"

definition isRelevantPDFContent :: "'vs services \<Rightarrow> document list option \<Rightarrow> string \<Rightarrow> bool async" where
  "isRelevantPDFContent sv results question =
     (case results of
        None \<Rightarrow> resolve False
      | Some rs \<Rightarrow>
          if length rs = 0 then resolve False
          else
            (case relevance_try sv rs question of
               (Inl error, t) \<Rightarrow> (Inr False, t)
             | (Inr b, t) \<Rightarrow> (Inr b, t)))"

section \<open>The chat handler\<close>

text \<open>
  The request body is \<^verbatim>\<open>{ message: string }\<close>, with the field possibly absent
  (\<open>None\<close>). \<^verbatim>\<open>!message\<close> holds for an absent field and for the empty string.
  A response is a status and a JSON body: \<open>ErrorBody e\<close> is \<^verbatim>\<open>{ error: e }\<close> and
  \<open>ChatBody m s\<close> is \<^verbatim>\<open>{ message: m, source: s }\<close>, where \<open>m\<close> may be
  \<^verbatim>\<open>null\<close>. A handler takes the value of \<^verbatim>\<open>vectorStore\<close> that it reads at its
  first check and returns the response, the value of \<^verbatim>\<open>vectorStore\<close> as its own
  ingestion left it, and the calls it made.
\<close>

record chat_request =
  message :: "string option"

datatype json_body = ErrorBody string | ChatBody "string option" string

record response =
  status :: nat
  body :: json_body

datatype answer = Answer (answer_content: "string option") (answer_source: string)

definition general_params :: "custom_prompt \<Rightarrow> string \<Rightarrow> completion_params" where
  "general_params customPrompt question =
     \<lparr>model = ''gpt-4o-mini'',
      temperature = 1 / 2,
      messages =
        [\<lparr>role = ''system'', content = systemPrompt customPrompt\<rparr>,
         \<lparr>role = ''user'', content = question\<rparr>]\<rparr>"

definition grounded_params :: "document list \<Rightarrow> string \<Rightarrow> completion_params" where
  "grounded_params results msg =
     \<lparr>model = ''gpt-4o-mini'',
      temperature = 0,
      messages =
        [\<lparr>role = ''system'',
          content = ''You are an AI assistant. Provide accurate answers based on the given context.''\<rparr>,
         \<lparr>role = ''user'',
          content = ''Answer the following question using the provided context:\<newline>Question: '' @
                    msg @ ''\<newline>Context: '' @ join ''\<newline>'' (map pageContent results)\<rparr>]\<rparr>"

definition bad_request :: response where
  "bad_request = \<lparr>status = 400, body = ErrorBody ''Message is required''\<rparr>"

definition server_error :: response where
  "server_error = \<lparr>status = 500, body = ErrorBody ''Internal server error''\<rparr>"

subsection \<open>First variant (index.js)\<close>

text \<open>\<open>getOpenAIResponse\<close> catches an error only to log it and throw it again.\<close>

definition getOpenAIResponse_index :: "'vs services \<Rightarrow> string \<Rightarrow> answer async" where
  "getOpenAIResponse_index sv question =
     then_do (create_call sv (general_params customPrompt_index question)) (\<lambda>response.
     then_do (settled (choices0_message_content response)) (\<lambda>c.
       resolve (Answer c ''OpenAI General Response'')))"

definition fallback_index :: "'vs services \<Rightarrow> string \<Rightarrow> response async" where
  "fallback_index sv msg =
     then_do (getOpenAIResponse_index sv msg) (\<lambda>fallbackResponse.
       resolve \<lparr>status = 200,
                body = ChatBody (answer_content fallbackResponse) (answer_source fallbackResponse)\<rparr>)"

text \<open>The \<^verbatim>\<open>try\<close> block of the handler after the index has been looked after.\<close>

definition chat_try_index :: "'vs services \<Rightarrow> 'vs option \<Rightarrow> string \<Rightarrow> response async" where
  "chat_try_index sv vectorStore msg =
     (case vectorStore of
        Some store \<Rightarrow>
          then_do (similaritySearch_call sv store msg 2) (\<lambda>results.
          then_do (isRelevantPDFContent sv (Some results) msg) (\<lambda>isRelevant.
            if isRelevant then
              then_do (create_call sv (grounded_params results msg)) (\<lambda>response.
              then_do (settled (choices0_message_content response)) (\<lambda>c.
                resolve \<lparr>status = 200, body = ChatBody c ''PDF Knowledge Base''\<rparr>))
            else fallback_index sv msg))
      | None \<Rightarrow> fallback_index sv msg)"

definition chat_index :: "'vs services \<Rightarrow> 'vs option \<Rightarrow> chat_request \<Rightarrow> response \<times> 'vs option \<times> call list" where
  "chat_index sv vectorStore req =
     (case message req of
        None \<Rightarrow> (bad_request, vectorStore, [])
      | Some msg \<Rightarrow>
          if msg = [] then (bad_request, vectorStore, [])
          else
            (case (if vectorStore = None then snd (initializePDF sv vectorStore)
                   else (vectorStore, [])) of
               (vs, t0) \<Rightarrow>
                 (case chat_try_index sv vs msg of
                    (Inr res, t) \<Rightarrow> (res, vs, t0 @ t)
                  | (Inl error, t) \<Rightarrow> (server_error, vs, t0 @ t))))"

subsection \<open>Second variant (part_000)\<close>

text \<open>
  The second variant passes the model's text through \<open>formatLinksAsHTML\<close>; on a
  \<^verbatim>\<open>null\<close> content, \<^verbatim>\<open>text.replace\<close> throws a TypeError.
\<close>

definition formatLinksAsHTML_call :: "string option \<Rightarrow> string result" where
  "formatLinksAsHTML_call c =
     (case c of
        None \<Rightarrow> Inl (TypeError ''Cannot read properties of null'')
      | Some text \<Rightarrow> Inr (formatLinksAsHTML text))"

definition getOpenAIResponse_part :: "'vs services \<Rightarrow> string \<Rightarrow> answer async" where
  "getOpenAIResponse_part sv question =
     then_do (create_call sv (general_params customPrompt_part question)) (\<lambda>response.
     then_do (settled (choices0_message_content response)) (\<lambda>c.
     then_do (settled (formatLinksAsHTML_call c)) (\<lambda>formattedContent.
       resolve (Answer (Some formattedContent) ''OpenAI General Response''))))"

definition fallback_part :: "'vs services \<Rightarrow> string \<Rightarrow> response async" where
  "fallback_part sv msg =
     then_do (getOpenAIResponse_part sv msg) (\<lambda>fallbackResponse.
       resolve \<lparr>status = 200,
                body = ChatBody (answer_content fallbackResponse) (answer_source fallbackResponse)\<rparr>)"

definition chat_try_part :: "'vs services \<Rightarrow> 'vs option \<Rightarrow> string \<Rightarrow> response async" where
  "chat_try_part sv vectorStore msg =
     (case vectorStore of
        Some store \<Rightarrow>
          then_do (similaritySearch_call sv store msg 2) (\<lambda>results.
          then_do (isRelevantPDFContent sv (Some results) msg) (\<lambda>isRelevant.
            if isRelevant then
              then_do (create_call sv (grounded_params results msg)) (\<lambda>response.
              then_do (settled (choices0_message_content response)) (\<lambda>c.
              then_do (settled (formatLinksAsHTML_call c)) (\<lambda>formattedMessage.
                resolve \<lparr>status = 200,
                         body = ChatBody (Some formattedMessage) ''PDF Knowledge Base''\<rparr>)))
            else fallback_part sv msg))
      | None \<Rightarrow> fallback_part sv msg)"

definition chat_part :: "'vs services \<Rightarrow> 'vs option \<Rightarrow> chat_request \<Rightarrow> response \<times> 'vs option \<times> call list" where
  "chat_part sv vectorStore req =
     (case message req of
        None \<Rightarrow> (bad_request, vectorStore, [])
      | Some msg \<Rightarrow>
          if msg = [] then (bad_request, vectorStore, [])
          else
            (case (if vectorStore = None then snd (initializePDF sv vectorStore)
                   else (vectorStore, [])) of
               (vs, t0) \<Rightarrow>
                 (case chat_try_part sv vs msg of
                    (Inr res, t) \<Rightarrow> (res, vs, t0 @ t)
                  | (Inl error, t) \<Rightarrow> (server_error, vs, t0 @ t))))"

section \<open>Reading responses and call lists\<close>

definition source_of :: "json_body \<Rightarrow> string option" where
  "source_of b = (case b of ErrorBody e \<Rightarrow> None | ChatBody m s \<Rightarrow> Some s)"

definition message_of :: "json_body \<Rightarrow> string option" where
  "message_of b = (case b of ErrorBody e \<Rightarrow> None | ChatBody m s \<Rightarrow> m)"


text \<open>A text has a URL when the pattern matches somewhere in it.\<close>

fun has_url :: "string \<Rightarrow> bool" where
  "has_url [] = False"
| "has_url (c # cs) = (urlRegex_at (c # cs) \<noteq> None \<or> has_url cs)"

text \<open>
  The relation the specification states between the two variants, in its words: the
  same status code, the same source value, and as message of the second variant
  \<open>formatLinksAsHTML\<close> applied to the text that the first variant returns unmodified.
\<close>

definition presented :: "response \<Rightarrow> response \<Rightarrow> bool" where
  "presented r r' =
     (status r' = status r \<and> source_of (body r') = source_of (body r) \<and>
      (case body r of
         ErrorBody e \<Rightarrow> body r' = ErrorBody e
       | ChatBody m s \<Rightarrow> message_of (body r') = map_option formatLinksAsHTML m))"

text \<open>
  How the outcomes of the two \<^verbatim>\<open>try\<close> blocks correspond: both reject, or both are
  fulfilled with responses related as above; and where the first variant answers with a
  \<^verbatim>\<open>null\<close> message, the second rejects.
\<close>

definition agree :: "response result \<Rightarrow> response result \<Rightarrow> bool" where
  "agree a b =
     (case a of
        Inl e \<Rightarrow> (case b of Inl e' \<Rightarrow> True | Inr r' \<Rightarrow> False)
      | Inr r \<Rightarrow>
          (case body r of
             ChatBody None s \<Rightarrow> (case b of Inl e' \<Rightarrow> True | Inr r' \<Rightarrow> False)
           | _ \<Rightarrow> (case b of Inl e' \<Rightarrow> False | Inr r' \<Rightarrow> presented r r')))"

section \<open>Services to run the model on\<close>

text \<open>
  A knowledge base of three chunks whose classifier answers \<open>verdict\<close> and whose
  answering completions carry \<open>reply\<close>; and services of which every call is rejected.
\<close>

definition example_docs :: "document list" where
  "example_docs =
     [\<lparr>pageContent = ''Ice sculptures should be stored at -10 F''\<rparr>,
      \<lparr>pageContent = ''Delivery is available on weekends''\<rparr>,
      \<lparr>pageContent = ''Custom logos take two days''\<rparr>]"

definition example_services :: "string option \<Rightarrow> string option \<Rightarrow> document list services" where
  "example_services verdict reply =
     \<lparr>load = (\<lambda>path. Inr [\<lparr>pageContent = join ''. '' (map pageContent example_docs)\<rparr>]),
      splitDocuments = (\<lambda>params docs. Inr example_docs),
      fromDocuments = (\<lambda>docs. Inr docs),
      similaritySearch = (\<lambda>store query k. Inr (take k store)),
      completions_create = (\<lambda>params.
        if prefix ''Determine'' (content (hd (messages params)))
        then Inr \<lparr>choices = [verdict]\<rparr>
        else Inr \<lparr>choices = [reply]\<rparr>)\<rparr>"


section \<open>Lemmas about the link formatter\<close>

lemma replace_None:
  "urlRegex_at (c # cs) = None \<Longrightarrow> replace_urlRegex f (c # cs) = c # replace_urlRegex f cs"
  by simp

lemma replace_Some:
  "urlRegex_at (c # cs) = Some (url, rest) \<Longrightarrow>
     replace_urlRegex f (c # cs) = f url @ replace_urlRegex f rest"
  by simp

lemma replace_no_url: "\<not> has_url t \<Longrightarrow> replace_urlRegex f t = t"
proof (induction t)
  case Nil
  show ?case by simp
next
  case (Cons c cs)
  then have "urlRegex_at (c # cs) = None" and "replace_urlRegex f cs = cs"
    by (cases "urlRegex_at (c # cs)"; simp)+
  then show ?case by (simp del: replace_urlRegex.simps add: replace_None)
qed

lemma length_anchor: "length url < length (anchor url)"
  by (simp add: anchor_def)

lemma has_url_append: "has_url ys \<Longrightarrow> has_url (xs @ ys)"
  by (induction xs) simp_all

lemma replace_length: "length t \<le> length (replace_urlRegex anchor t)"
proof (induction t rule: length_induct)
  case (1 t)
  show ?case
  proof (cases t)
    case Nil then show ?thesis by simp
  next
    case (Cons c cs)
    show ?thesis
    proof (cases "urlRegex_at (c # cs)")
      case None
      moreover have "length cs \<le> length (replace_urlRegex anchor cs)"
        using 1 Cons by simp
      ultimately show ?thesis using Cons by (simp del: replace_urlRegex.simps add: replace_None)
    next
      case (Some p)
      obtain url rest where p: "p = (url, rest)" by (cases p)
      from Some p have m: "urlRegex_at (c # cs) = Some (url, rest)" by simp
      then have s: "c # cs = url @ rest" using urlRegex_at_split by blast
      then have "length rest < length t" using m urlRegex_at_shorter Cons by blast
      then have "length rest \<le> length (replace_urlRegex anchor rest)" using 1 by blast
      moreover have "length (c # cs) = length url + length rest" using s by (metis length_append)
      ultimately show ?thesis using Cons length_anchor[of url]
        by (simp del: replace_urlRegex.simps add: replace_Some[OF m])
    qed
  qed
qed

lemma replace_longer: "has_url t \<Longrightarrow> length t < length (replace_urlRegex anchor t)"
proof (induction t rule: length_induct)
  case (1 t)
  show ?case
  proof (cases t)
    case Nil with 1 show ?thesis by simp
  next
    case (Cons c cs)
    show ?thesis
    proof (cases "urlRegex_at (c # cs)")
      case None
      with 1(2) Cons have "has_url cs" by simp
      then have "length cs < length (replace_urlRegex anchor cs)"
        using 1 Cons by simp
      then show ?thesis using Cons None by (simp del: replace_urlRegex.simps add: replace_None)
    next
      case (Some p)
      obtain url rest where p: "p = (url, rest)" by (cases p)
      from Some p have m: "urlRegex_at (c # cs) = Some (url, rest)" by simp
      then have s: "c # cs = url @ rest" using urlRegex_at_split by blast
      have "length rest \<le> length (replace_urlRegex anchor rest)" by (rule replace_length)
      moreover have "length (c # cs) = length url + length rest" using s by (metis length_append)
      ultimately show ?thesis using Cons length_anchor[of url]
        by (simp del: replace_urlRegex.simps add: replace_Some[OF m])
    qed
  qed
qed

lemma urlRegex_at_extend:
  assumes "urlRegex_at t = Some (url, rest)"
  shows "urlRegex_at (url @ after) \<noteq> None"
proof -
  from assms obtain scheme tl where
    s: "scheme_at t = Some (scheme, tl)" and
    u: "url = scheme @ takeWhile (\<lambda>c. \<not> is_space c) tl" and
    n: "takeWhile (\<lambda>c. \<not> is_space c) tl \<noteq> []"
    by (auto simp: urlRegex_at_def Let_def split: option.splits if_splits)
  let ?run = "takeWhile (\<lambda>c. \<not> is_space c) tl"
  from s have sch: "scheme = ''https://'' \<or> scheme = ''http://''"
    by (auto simp: scheme_at_def split: if_splits)
  obtain r rs where run: "?run = r # rs" using n by (cases ?run) auto
  then have "r \<in> set ?run" by simp
  then have r: "\<not> is_space r" by (auto dest: set_takeWhileD)
  from sch show ?thesis
  proof
    assume "scheme = ''https://''"
    then show ?thesis using u run r
      by (simp add: urlRegex_at_def scheme_at_def Let_def)
  next
    assume "scheme = ''http://''"
    then show ?thesis using u run r
      by (simp add: urlRegex_at_def scheme_at_def Let_def)
  qed
qed

lemma has_url_anchor:
  assumes "urlRegex_at t = Some (url, rest)"
  shows "has_url (anchor url @ after)"
proof -
  have "anchor url @ after = ''<a href=\"'' @ (url @ (''\" target=\"_blank\">'' @ url @ ''</a>'' @ after))"
    by (simp add: anchor_def)
  moreover have "has_url (url @ (''\" target=\"_blank\">'' @ url @ ''</a>'' @ after))"
  proof -
    from assms have "url \<noteq> []" using urlRegex_at_split by blast
    then obtain c cs where "url = c # cs" by (cases url) auto
    then show ?thesis using urlRegex_at_extend[OF assms, of "''\" target=\"_blank\">'' @ url @ ''</a>'' @ after"]
      by simp
  qed
  ultimately show ?thesis using has_url_append by metis
qed

lemma replace_keeps_url: "has_url t \<Longrightarrow> has_url (replace_urlRegex anchor t)"
proof (induction t)
  case Nil then show ?case by simp
next
  case (Cons c cs)
  show ?case
  proof (cases "urlRegex_at (c # cs)")
    case None
    with Cons have "has_url (replace_urlRegex anchor cs)" by simp
    then have "has_url ([c] @ replace_urlRegex anchor cs)" by (rule has_url_append)
    then show ?thesis using None by (simp del: replace_urlRegex.simps has_url.simps add: replace_None)
  next
    case (Some p)
    obtain url rest where p: "p = (url, rest)" by (cases p)
    from Some p have m: "urlRegex_at (c # cs) = Some (url, rest)" by simp
    show ?thesis using has_url_anchor[OF m] by (simp del: replace_urlRegex.simps has_url.simps add: replace_Some[OF m])
  qed
qed

lemma includes_sublist: "includes_str s t = sublist t s"
  by (induction s) (auto simp: sublist_Cons_right)

lemma scheme_includes:
  "scheme_at t \<noteq> None \<Longrightarrow> includes_str t ''http://'' \<or> includes_str t ''https://''"
  by (cases t) (auto simp: scheme_at_def split: if_splits)

lemma has_url_includes:
  "has_url t \<Longrightarrow> includes_str t ''http://'' \<or> includes_str t ''https://''"
proof (induction t)
  case Nil then show ?case by simp
next
  case (Cons c cs)
  show ?case
  proof (cases "urlRegex_at (c # cs)")
    case None
    with Cons show ?thesis by auto
  next
    case (Some p)
    then have "scheme_at (c # cs) \<noteq> None" by (auto simp: urlRegex_at_def split: option.splits)
    then show ?thesis by (rule scheme_includes)
  qed
qed

section \<open>Lemmas about the handlers\<close>

lemma then_do_settled: "then_do (settled r) f = (case r of Inl e \<Rightarrow> (Inl e, []) | Inr x \<Rightarrow> f x)"
  by (simp add: then_do_def settled_def split: sum.splits prod.splits)

lemma then_do_resolve: "then_do (resolve x) f = f x"
  by (simp add: then_do_def resolve_def split: prod.splits)

lemma then_do_cases:
  "then_do m f = (case fst m of Inl e \<Rightarrow> (Inl e, snd m) | Inr x \<Rightarrow> (fst (f x), snd m @ snd (f x)))"
  by (cases m) (simp add: then_do_def split: sum.splits prod.splits)

lemma isRelevant_fulfilled: "\<exists>b. fst (isRelevantPDFContent sv results q) = Inr b"
  by (auto simp: isRelevantPDFContent_def resolve_def split: option.splits prod.splits sum.splits)

lemma fallback_index_ok:
  "fallback_index sv msg = (Inr res, t) \<Longrightarrow>
     status res = 200 \<and> source_of (body res) = Some ''OpenAI General Response''"
  by (auto simp: fallback_index_def getOpenAIResponse_index_def then_do_cases create_call_def
        settled_def resolve_def source_of_def split: sum.splits)

lemma fallback_part_ok:
  "fallback_part sv msg = (Inr res, t) \<Longrightarrow>
     status res = 200 \<and> source_of (body res) = Some ''OpenAI General Response''"
  by (auto simp: fallback_part_def getOpenAIResponse_part_def then_do_cases create_call_def
        settled_def resolve_def source_of_def split: sum.splits)

lemma chat_try_index_ok:
  "chat_try_index sv vs msg = (Inr res, t) \<Longrightarrow>
     status res = 200 \<and>
     (source_of (body res) = Some ''PDF Knowledge Base'' \<or> source_of (body res) = Some ''OpenAI General Response'')"
  apply (cases "fallback_index sv msg")
  apply (auto simp: chat_try_index_def then_do_cases create_call_def similaritySearch_call_def
        settled_def resolve_def source_of_def split: sum.splits option.splits if_splits dest: fallback_index_ok)
  done

lemma chat_try_part_ok:
  "chat_try_part sv vs msg = (Inr res, t) \<Longrightarrow>
     status res = 200 \<and>
     (source_of (body res) = Some ''PDF Knowledge Base'' \<or> source_of (body res) = Some ''OpenAI General Response'')"
  apply (cases "fallback_part sv msg")
  apply (auto simp: chat_try_part_def then_do_cases create_call_def similaritySearch_call_def
        settled_def resolve_def source_of_def split: sum.splits option.splits if_splits dest: fallback_part_ok)
  done

lemma chat_index_unfold:
  "msg \<noteq> [] \<Longrightarrow> chat_index sv vs \<lparr>message = Some msg\<rparr> =
     (let p = (if vs = None then snd (initializePDF sv vs) else (vs, []));
          a = chat_try_index sv (fst p) msg
      in (case fst a of Inr res \<Rightarrow> res | Inl e \<Rightarrow> server_error, fst p, snd p @ snd a))"
  by (auto simp: chat_index_def Let_def split: prod.splits sum.splits)

lemma chat_part_unfold:
  "msg \<noteq> [] \<Longrightarrow> chat_part sv vs \<lparr>message = Some msg\<rparr> =
     (let p = (if vs = None then snd (initializePDF sv vs) else (vs, []));
          a = chat_try_part sv (fst p) msg
      in (case fst a of Inr res \<Rightarrow> res | Inl e \<Rightarrow> server_error, fst p, snd p @ snd a))"
  by (auto simp: chat_part_def Let_def split: prod.splits sum.splits)







lemma fallback_index_eq:
  "fst (fallback_index sv msg) =
     (case completions_create sv (general_params customPrompt_index msg) of
        Inl e \<Rightarrow> Inl e
      | Inr response \<Rightarrow>
          (case choices response of
             [] \<Rightarrow> Inl (TypeError ''Cannot read properties of undefined'')
           | c # _ \<Rightarrow> Inr \<lparr>status = 200, body = ChatBody c ''OpenAI General Response''\<rparr>))"
  by (simp add: fallback_index_def getOpenAIResponse_index_def then_do_cases create_call_def
        then_do_settled then_do_resolve choices0_message_content_def resolve_def settled_def
        split: sum.splits list.splits)

lemma fallback_part_eq:
  "fst (fallback_part sv msg) =
     (case completions_create sv (general_params customPrompt_part msg) of
        Inl e \<Rightarrow> Inl e
      | Inr response \<Rightarrow>
          (case choices response of
             [] \<Rightarrow> Inl (TypeError ''Cannot read properties of undefined'')
           | None # _ \<Rightarrow> Inl (TypeError ''Cannot read properties of null'')
           | Some text # _ \<Rightarrow>
               Inr \<lparr>status = 200, body = ChatBody (Some (formatLinksAsHTML text)) ''OpenAI General Response''\<rparr>))"
  by (simp add: fallback_part_def getOpenAIResponse_part_def then_do_cases create_call_def
        then_do_settled then_do_resolve choices0_message_content_def resolve_def settled_def
        formatLinksAsHTML_call_def
        split: sum.splits list.splits option.splits)

lemma chat_try_index_eq:
  "fst (chat_try_index sv index msg) =
     (case index of
        None \<Rightarrow> fst (fallback_index sv msg)
      | Some store \<Rightarrow>
          (case similaritySearch sv store msg 2 of
             Inl e \<Rightarrow> Inl e
           | Inr rs \<Rightarrow>
               (case fst (isRelevantPDFContent sv (Some rs) msg) of
                  Inl e \<Rightarrow> Inl e
                | Inr False \<Rightarrow> fst (fallback_index sv msg)
                | Inr True \<Rightarrow>
                    (case completions_create sv (grounded_params rs msg) of
                       Inl e \<Rightarrow> Inl e
                     | Inr response \<Rightarrow>
                         (case choices response of
                            [] \<Rightarrow> Inl (TypeError ''Cannot read properties of undefined'')
                          | c # _ \<Rightarrow> Inr \<lparr>status = 200, body = ChatBody c ''PDF Knowledge Base''\<rparr>)))))"
  by (simp add: chat_try_index_def then_do_cases create_call_def similaritySearch_call_def
        then_do_settled then_do_resolve choices0_message_content_def resolve_def settled_def
        split: sum.splits list.splits option.splits bool.splits)

lemma chat_try_part_eq:
  "fst (chat_try_part sv index msg) =
     (case index of
        None \<Rightarrow> fst (fallback_part sv msg)
      | Some store \<Rightarrow>
          (case similaritySearch sv store msg 2 of
             Inl e \<Rightarrow> Inl e
           | Inr rs \<Rightarrow>
               (case fst (isRelevantPDFContent sv (Some rs) msg) of
                  Inl e \<Rightarrow> Inl e
                | Inr False \<Rightarrow> fst (fallback_part sv msg)
                | Inr True \<Rightarrow>
                    (case completions_create sv (grounded_params rs msg) of
                       Inl e \<Rightarrow> Inl e
                     | Inr response \<Rightarrow>
                         (case choices response of
                            [] \<Rightarrow> Inl (TypeError ''Cannot read properties of undefined'')
                          | None # _ \<Rightarrow> Inl (TypeError ''Cannot read properties of null'')
                          | Some text # _ \<Rightarrow>
                              Inr \<lparr>status = 200,
                                   body = ChatBody (Some (formatLinksAsHTML text)) ''PDF Knowledge Base''\<rparr>)))))"
  by (simp add: chat_try_part_def then_do_cases create_call_def similaritySearch_call_def
        then_do_settled then_do_resolve choices0_message_content_def resolve_def settled_def
        formatLinksAsHTML_call_def
        split: sum.splits list.splits option.splits bool.splits)

lemma chat_index_response:
  "msg \<noteq> [] \<Longrightarrow> fst (chat_index sv vs \<lparr>message = Some msg\<rparr>) =
     (case fst (chat_try_index sv (if vs = None then fst (snd (initializePDF sv vs)) else vs) msg) of
        Inr res \<Rightarrow> res | Inl e \<Rightarrow> server_error)"
  by (simp add: chat_index_unfold Let_def)

lemma chat_part_response:
  "msg \<noteq> [] \<Longrightarrow> fst (chat_part sv vs \<lparr>message = Some msg\<rparr>) =
     (case fst (chat_try_part sv (if vs = None then fst (snd (initializePDF sv vs)) else vs) msg) of
        Inr res \<Rightarrow> res | Inl e \<Rightarrow> server_error)"
  by (simp add: chat_part_unfold Let_def)


lemma agree_fallback:
  assumes "completions_create sv (general_params customPrompt_part msg) =
           completions_create sv (general_params customPrompt_index msg)"
  shows "agree (fst (fallback_index sv msg)) (fst (fallback_part sv msg))"
  unfolding fallback_index_eq fallback_part_eq assms
  by (simp add: agree_def presented_def source_of_def message_of_def
        split: sum.splits list.splits option.splits)

lemma agree_grounded:
  "agree
     (case completions_create sv (grounded_params rs msg) of
        Inl e \<Rightarrow> Inl e
      | Inr response \<Rightarrow>
          (case choices response of
             [] \<Rightarrow> Inl (TypeError ''Cannot read properties of undefined'')
           | c # _ \<Rightarrow> Inr \<lparr>status = 200, body = ChatBody c ''PDF Knowledge Base''\<rparr>))
     (case completions_create sv (grounded_params rs msg) of
        Inl e \<Rightarrow> Inl e
      | Inr response \<Rightarrow>
          (case choices response of
             [] \<Rightarrow> Inl (TypeError ''Cannot read properties of undefined'')
           | None # _ \<Rightarrow> Inl (TypeError ''Cannot read properties of null'')
           | Some text # _ \<Rightarrow>
               Inr \<lparr>status = 200,
                    body = ChatBody (Some (formatLinksAsHTML text)) ''PDF Knowledge Base''\<rparr>))"
  by (simp add: agree_def presented_def source_of_def message_of_def
        split: sum.splits list.splits option.splits)

lemma agree_try:
  assumes "completions_create sv (general_params customPrompt_part msg) =
           completions_create sv (general_params customPrompt_index msg)"
  shows "agree (fst (chat_try_index sv index msg)) (fst (chat_try_part sv index msg))"
proof (cases index)
  case None
  then show ?thesis using agree_fallback[OF assms] by (simp add: chat_try_index_eq chat_try_part_eq)
next
  case (Some store)
  show ?thesis
  proof (cases "similaritySearch sv store msg 2")
    case (Inl e)
    with Some show ?thesis by (simp add: chat_try_index_eq chat_try_part_eq agree_def)
  next
    case (Inr rs)
    obtain b where b: "fst (isRelevantPDFContent sv (Some rs) msg) = Inr b"
      using isRelevant_fulfilled by blast
    show ?thesis
    proof (cases b)
      case True
      with Some Inr b agree_grounded[of sv rs msg] show ?thesis
        by (simp add: chat_try_index_eq chat_try_part_eq)
    next
      case False
      with Some Inr b agree_fallback[OF assms] show ?thesis
        by (simp add: chat_try_index_eq chat_try_part_eq)
    qed
  qed
qed

lemma agree_response:
  assumes "agree a b"
  shows "(case body (case a of Inr res \<Rightarrow> res | Inl e \<Rightarrow> server_error) of
            ChatBody None s \<Rightarrow>
              (case b of Inr res \<Rightarrow> res | Inl e \<Rightarrow> server_error) =
                \<lparr>status = 500, body = ErrorBody ''Internal server error''\<rparr>
          | _ \<Rightarrow> presented (case a of Inr res \<Rightarrow> res | Inl e \<Rightarrow> server_error)
                           (case b of Inr res \<Rightarrow> res | Inl e \<Rightarrow> server_error))"
  using assms
  by (cases a; cases b)
     (auto simp: agree_def server_error_def presented_def source_of_def message_of_def
        split: json_body.splits option.splits)

section \<open>The claims\<close>

text \<open>
  C1. For every request with a non-empty message string, a response with status 200
  carries a source that is one of the two values \<open>PDF Knowledge Base\<close> and
  \<open>OpenAI General Response\<close>; the body has one source field and the two values
  differ, so it is never both. This holds for the handlers of both variants.
\<close>

theorem chat_source_one_of_two:
  assumes "msg \<noteq> []"
  shows "(status (fst (chat_index sv vs \<lparr>message = Some msg\<rparr>)) = 200 \<longrightarrow>
            source_of (body (fst (chat_index sv vs \<lparr>message = Some msg\<rparr>))) = Some ''PDF Knowledge Base'' \<or>
            source_of (body (fst (chat_index sv vs \<lparr>message = Some msg\<rparr>))) = Some ''OpenAI General Response'') \<and>
         (status (fst (chat_part sv vs \<lparr>message = Some msg\<rparr>)) = 200 \<longrightarrow>
            source_of (body (fst (chat_part sv vs \<lparr>message = Some msg\<rparr>))) = Some ''PDF Knowledge Base'' \<or>
            source_of (body (fst (chat_part sv vs \<lparr>message = Some msg\<rparr>))) = Some ''OpenAI General Response'') \<and>
         ''PDF Knowledge Base'' \<noteq> ''OpenAI General Response''"
proof -
  let ?index = "if vs = None then fst (snd (initializePDF sv vs)) else vs"
  have i: "status res = 200 \<longrightarrow> source_of (body res) = Some ''PDF Knowledge Base'' \<or>
            source_of (body res) = Some ''OpenAI General Response''"
    if "res = fst (chat_index sv vs \<lparr>message = Some msg\<rparr>)" for res
  proof (cases "chat_try_index sv ?index msg")
    case (Pair r t)
    show ?thesis
    proof (cases r)
      case (Inl e)
      with Pair that assms show ?thesis by (simp add: chat_index_response server_error_def)
    next
      case (Inr x)
      with Pair that assms chat_try_index_ok[of sv ?index msg x t] show ?thesis
        by (simp add: chat_index_response)
    qed
  qed
  have p: "status res = 200 \<longrightarrow> source_of (body res) = Some ''PDF Knowledge Base'' \<or>
            source_of (body res) = Some ''OpenAI General Response''"
    if "res = fst (chat_part sv vs \<lparr>message = Some msg\<rparr>)" for res
  proof (cases "chat_try_part sv ?index msg")
    case (Pair r t)
    show ?thesis
    proof (cases r)
      case (Inl e)
      with Pair that assms show ?thesis by (simp add: chat_part_response server_error_def)
    next
      case (Inr x)
      with Pair that assms chat_try_part_ok[of sv ?index msg x t] show ?thesis
        by (simp add: chat_part_response)
    qed
  qed
  from i p show ?thesis by simp
qed

text \<open>
  The theorem at a question the knowledge base answers and at one it does not: both
  responses have status 200, the first with the one source and the second with the other.
\<close>

theorem chat_source_one_of_two_witness:
  "''How cold?'' \<noteq> [] \<and>
   status (fst (chat_index (example_services (Some ''true'') (Some ''At -10 F.'')) None
                  \<lparr>message = Some ''How cold?''\<rparr>)) = 200 \<and>
   source_of (body (fst (chat_index (example_services (Some ''true'') (Some ''At -10 F.'')) None
                  \<lparr>message = Some ''How cold?''\<rparr>))) = Some ''PDF Knowledge Base'' \<and>
   status (fst (chat_part (example_services (Some ''false'') (Some ''At -10 F.'')) None
                  \<lparr>message = Some ''How cold?''\<rparr>)) = 200 \<and>
   source_of (body (fst (chat_part (example_services (Some ''false'') (Some ''At -10 F.'')) None
                  \<lparr>message = Some ''How cold?''\<rparr>))) = Some ''OpenAI General Response''"
  using chat_source_one_of_two [of "''How cold?''" "example_services (Some ''true'') (Some ''At -10 F.'')" None]
    chat_source_one_of_two [of "''How cold?''" "example_services (Some ''false'') (Some ''At -10 F.'')" None]
  by code_simp

text \<open>
  C2. A request whose message field is missing or is the empty string gets status 400
  with the body \<^verbatim>\<open>{ error: 'Message is required' }\<close>; no call is made (no ingestion,
  no similarity search, no completion) and \<^verbatim>\<open>vectorStore\<close> is left as it was. This
  holds for both variants, whatever the services would do.
\<close>

theorem chat_message_required:
  "chat_index sv vs \<lparr>message = None\<rparr> =
     (\<lparr>status = 400, body = ErrorBody ''Message is required''\<rparr>, vs, []) \<and>
   chat_index sv vs \<lparr>message = Some ''''\<rparr> =
     (\<lparr>status = 400, body = ErrorBody ''Message is required''\<rparr>, vs, []) \<and>
   chat_part sv vs \<lparr>message = None\<rparr> =
     (\<lparr>status = 400, body = ErrorBody ''Message is required''\<rparr>, vs, []) \<and>
   chat_part sv vs \<lparr>message = Some ''''\<rparr> =
     (\<lparr>status = 400, body = ErrorBody ''Message is required''\<rparr>, vs, [])"
  by (simp add: chat_index_def chat_part_def bad_request_def)

text \<open>
  C3, as amended. \<open>formatLinksAsHTML\<close> is the identity on every text with no occurrence
  of \<^verbatim>\<open>http://\<close> or \<^verbatim>\<open>https://\<close>. Applying it twice equals applying it once
  exactly on the texts it leaves unchanged: it has no test for a link that is already
  wrapped, so a URL it has wrapped is matched and wrapped again. On every text in which
  the pattern matches, the first application changes the text and the second changes
  it again.
\<close>

theorem formatLinksAsHTML_fixed_points:
  "(\<not> includes_str t ''http://'' \<and> \<not> includes_str t ''https://'' \<longrightarrow> formatLinksAsHTML t = t) \<and>
   (formatLinksAsHTML (formatLinksAsHTML t) = formatLinksAsHTML t \<longleftrightarrow> formatLinksAsHTML t = t) \<and>
   (has_url t \<longrightarrow>
      formatLinksAsHTML t \<noteq> t \<and>
      formatLinksAsHTML (formatLinksAsHTML t) \<noteq> formatLinksAsHTML t)"
proof -
  have a: "\<not> has_url t \<Longrightarrow> formatLinksAsHTML t = t" for t
    by (simp add: formatLinksAsHTML_def replace_no_url)
  have b: "has_url t \<Longrightarrow> formatLinksAsHTML t \<noteq> t" for t
    using replace_longer[of t] by (auto simp: formatLinksAsHTML_def)
  have c: "has_url t \<Longrightarrow> has_url (formatLinksAsHTML t)" for t
    by (simp add: formatLinksAsHTML_def replace_keeps_url)
  show ?thesis using a b c has_url_includes by metis
qed

text \<open>
  The theorem at a text without a URL, which stays as it is, and at a text with one,
  which changes at the first and again at the second application.
\<close>

theorem formatLinksAsHTML_fixed_points_witness:
  "\<not> includes_str ''Open on weekends.'' ''http://'' \<and>
   \<not> includes_str ''Open on weekends.'' ''https://'' \<and>
   formatLinksAsHTML ''Open on weekends.'' = ''Open on weekends.'' \<and>
   formatLinksAsHTML (formatLinksAsHTML ''Open on weekends.'') = formatLinksAsHTML ''Open on weekends.'' \<and>
   has_url ''Order at http://ice.example now'' \<and>
   formatLinksAsHTML ''Order at http://ice.example now'' \<noteq> ''Order at http://ice.example now'' \<and>
   formatLinksAsHTML (formatLinksAsHTML ''Order at http://ice.example now'') \<noteq>
     formatLinksAsHTML ''Order at http://ice.example now''"
  using formatLinksAsHTML_fixed_points [of "''Open on weekends.''"]
    formatLinksAsHTML_fixed_points [of "''Order at http://ice.example now''"]
  by code_simp

text \<open>
  C3 as stated fails: on the anchor that \<open>formatLinksAsHTML\<close> makes of a URL, applying
  it again does not give the same text, neither counted from the bare URL nor from the
  wrapped one.
\<close>

theorem formatLinksAsHTML_not_idempotent:
  \<open>formatLinksAsHTML ''https://a.com'' = ''<a href="https://a.com" target="_blank">https://a.com</a>'' \<and>
   formatLinksAsHTML (formatLinksAsHTML ''https://a.com'') \<noteq> formatLinksAsHTML ''https://a.com'' \<and>
   formatLinksAsHTML (formatLinksAsHTML (formatLinksAsHTML ''https://a.com'')) \<noteq>
     formatLinksAsHTML (formatLinksAsHTML ''https://a.com'')\<close>
  by code_simp

text \<open>
  C4. For a non-empty chunk list, the classifier makes one completion call and returns
  true if and only if the response has a text and that text, in lower case, contains
  \<open>true\<close>; a rejected call, a response with no choice and a \<^verbatim>\<open>null\<close> content all
  give false.
\<close>

theorem isRelevantPDFContent_iff_true:
  assumes "rs \<noteq> []"
  shows "isRelevantPDFContent sv (Some rs) question =
           (Inr (case completions_create sv (relevance_params rs question) of
                   Inl error \<Rightarrow> False
                 | Inr response \<Rightarrow>
                     (case choices response of
                        Some text # _ \<Rightarrow> includes_str (toLowerCase text) ''true''
                      | _ \<Rightarrow> False)),
            [CompletionsCreate (relevance_params rs question)])"
  using assms
  by (simp add: isRelevantPDFContent_def relevance_try_def then_do_cases create_call_def
       then_do_settled then_do_resolve choices0_message_content_def settled_def resolve_def
       split: sum.splits list.splits option.splits prod.splits)

theorem isRelevantPDFContent_iff_true_witness:
  "example_docs \<noteq> [] \<and>
   fst (isRelevantPDFContent (example_services (Some ''TRUE.'') None) (Some example_docs) ''How cold?'') = Inr True \<and>
   fst (isRelevantPDFContent (example_services (Some ''Yes, it is.'') None) (Some example_docs) ''How cold?'') = Inr False \<and>
   fst (isRelevantPDFContent (example_services (Some ''Not untrue'') None) (Some example_docs) ''How cold?'') = Inr True"
  using isRelevantPDFContent_iff_true [of example_docs "example_services (Some ''TRUE.'') None" "''How cold?''"]
    isRelevantPDFContent_iff_true [of example_docs "example_services (Some ''Yes, it is.'') None" "''How cold?''"]
    isRelevantPDFContent_iff_true [of example_docs "example_services (Some ''Not untrue'') None" "''How cold?''"]
  by code_simp

text \<open>
  C5. With an absent or an empty chunk list the classifier returns false and makes no
  call, whatever the question and the services.
\<close>

theorem isRelevantPDFContent_empty:
  "isRelevantPDFContent sv None question = (Inr False, []) \<and>
   isRelevantPDFContent sv (Some []) question = (Inr False, [])"
  by (simp add: isRelevantPDFContent_def resolve_def)

text \<open>
  C6. When the completion call of the classifier is rejected, the classifier is
  fulfilled with false: the error does not reach its caller. The handler of either
  variant then answers as its general-response path does.
\<close>

theorem isRelevantPDFContent_catches:
  assumes "completions_create sv (relevance_params rs question) = Inl error"
  shows "fst (isRelevantPDFContent sv (Some rs) question) = Inr False \<and>
         (similaritySearch sv store question 2 = Inr rs \<longrightarrow>
            fst (chat_try_index sv (Some store) question) = fst (fallback_index sv question) \<and>
            fst (chat_try_part sv (Some store) question) = fst (fallback_part sv question))"
proof -
  from assms have "fst (isRelevantPDFContent sv (Some rs) question) = Inr False"
    by (simp add: isRelevantPDFContent_def relevance_try_def then_do_cases create_call_def
          resolve_def split: sum.splits prod.splits)
  then show ?thesis by (simp add: chat_try_index_eq chat_try_part_eq)
qed

text \<open>
  The theorem on services whose classifier call alone is rejected: the request is
  answered from the general path with status 200.
\<close>

theorem isRelevantPDFContent_catches_witness:
  "completions_create
     ((example_services None (Some ''At -10 F.''))
        \<lparr>completions_create := \<lambda>params.
           if prefix ''Determine'' (content (hd (messages params)))
           then Inl (ServiceError ''rate limit'')
           else Inr \<lparr>choices = [Some ''At -10 F.'']\<rparr>\<rparr>)
     (relevance_params (take 2 example_docs) ''How cold?'') = Inl (ServiceError ''rate limit'') \<and>
   fst (isRelevantPDFContent
     ((example_services None (Some ''At -10 F.''))
        \<lparr>completions_create := \<lambda>params.
           if prefix ''Determine'' (content (hd (messages params)))
           then Inl (ServiceError ''rate limit'')
           else Inr \<lparr>choices = [Some ''At -10 F.'']\<rparr>\<rparr>)
     (Some (take 2 example_docs)) ''How cold?'') = Inr False \<and>
   fst (chat_index
     ((example_services None (Some ''At -10 F.''))
        \<lparr>completions_create := \<lambda>params.
           if prefix ''Determine'' (content (hd (messages params)))
           then Inl (ServiceError ''rate limit'')
           else Inr \<lparr>choices = [Some ''At -10 F.'']\<rparr>\<rparr>)
     (Some example_docs) \<lparr>message = Some ''How cold?''\<rparr>) =
     \<lparr>status = 200, body = ChatBody (Some ''At -10 F.'') ''OpenAI General Response''\<rparr>"
  using isRelevantPDFContent_catches
    [of "(example_services None (Some ''At -10 F.''))
           \<lparr>completions_create := \<lambda>params.
              if prefix ''Determine'' (content (hd (messages params)))
              then Inl (ServiceError ''rate limit'')
              else Inr \<lparr>choices = [Some ''At -10 F.'']\<rparr>\<rparr>"
        "take 2 example_docs" "''How cold?''" "ServiceError ''rate limit''" example_docs]
  by code_simp









text \<open>
  C10, as amended. For a request with a non-empty message and services that answer the
  general request of either variant alike (the two differ in the system prompt only),
  the second variant returns the same status code and the same source as the first, and
  as message \<open>formatLinksAsHTML\<close> of the text the first returns, whenever the first
  returns an error body or a message text. Where the message of the first variant is
  \<^verbatim>\<open>null\<close> (a completion whose content is \<^verbatim>\<open>null\<close>), the second variant returns
  the generic 500 instead.
\<close>

theorem variants_agree_on_text:
  assumes "msg \<noteq> []"
    and "completions_create sv (general_params customPrompt_part msg) =
         completions_create sv (general_params customPrompt_index msg)"
  shows "(case body (fst (chat_index sv vs \<lparr>message = Some msg\<rparr>)) of
            ChatBody None s \<Rightarrow>
              fst (chat_part sv vs \<lparr>message = Some msg\<rparr>) =
                \<lparr>status = 500, body = ErrorBody ''Internal server error''\<rparr>
          | _ \<Rightarrow> presented (fst (chat_index sv vs \<lparr>message = Some msg\<rparr>))
                           (fst (chat_part sv vs \<lparr>message = Some msg\<rparr>)))"
  unfolding chat_index_response[OF assms(1)] chat_part_response[OF assms(1)]
  by (rule agree_response) (rule agree_try[OF assms(2)])

theorem variants_agree_on_text_witness:
  "''Where to order?'' \<noteq> [] \<and>
   completions_create (example_services (Some ''true'') (Some ''Visit https://theicebutcher.com/ today''))
     (general_params customPrompt_part ''Where to order?'') =
   completions_create (example_services (Some ''true'') (Some ''Visit https://theicebutcher.com/ today''))
     (general_params customPrompt_index ''Where to order?'') \<and>
   fst (chat_index (example_services (Some ''true'') (Some ''Visit https://theicebutcher.com/ today'')) None
          \<lparr>message = Some ''Where to order?''\<rparr>) =
     \<lparr>status = 200,
      body = ChatBody (Some ''Visit https://theicebutcher.com/ today'') ''PDF Knowledge Base''\<rparr> \<and>
   presented
     (fst (chat_index (example_services (Some ''true'') (Some ''Visit https://theicebutcher.com/ today'')) None
             \<lparr>message = Some ''Where to order?''\<rparr>))
     (fst (chat_part (example_services (Some ''true'') (Some ''Visit https://theicebutcher.com/ today'')) None
             \<lparr>message = Some ''Where to order?''\<rparr>))"
  using variants_agree_on_text
    [of "''Where to order?''"
        "example_services (Some ''true'') (Some ''Visit https://theicebutcher.com/ today'')" None]
  by code_simp

text \<open>
  C10 as stated fails on a completion whose content is \<^verbatim>\<open>null\<close>: with the same
  services the first variant answers 200 with a \<^verbatim>\<open>null\<close> message and the second
  answers 500.
\<close>

theorem variants_differ_on_null_content:
  "fst (chat_index (example_services (Some ''false'') None) None \<lparr>message = Some ''How cold?''\<rparr>) =
     \<lparr>status = 200, body = ChatBody None ''OpenAI General Response''\<rparr> \<and>
   fst (chat_part (example_services (Some ''false'') None) None \<lparr>message = Some ''How cold?''\<rparr>) =
     \<lparr>status = 500, body = ErrorBody ''Internal server error''\<rparr> \<and>
   status (fst (chat_index (example_services (Some ''false'') None) None \<lparr>message = Some ''How cold?''\<rparr>)) \<noteq>
   status (fst (chat_part (example_services (Some ''false'') None) None \<lparr>message = Some ''How cold?''\<rparr>)) \<and>
   \<not> presented
     (fst (chat_index (example_services (Some ''false'') None) None \<lparr>message = Some ''How cold?''\<rparr>))
     (fst (chat_part (example_services (Some ''false'') None) None \<lparr>message = Some ''How cold?''\<rparr>))"
  by code_simp

end
